theory Spec2Isabelle
  imports Complex_Main "HOL-Library.AList" "HOL-Library.Word"
begin

section \<open>Values, objects and failures\<close>

text \<open>
  The values the repository handles: JavaScript's \<open>undefined\<close> and \<open>null\<close>, booleans,
  integers (\<open>id\<close>, \<open>salary\<close>), decimals (\<open>equity\<close>), strings, and plain objects,
  which keep their keys in insertion order. A plain object is an association list;
  reading a key that is absent gives \<open>undefined\<close>.
\<close>

datatype val =
  Undefined | Null | Bool bool | Num int | Dec rat | Str string | Obj "(string \<times> val) list"

type_synonym obj = "(string \<times> val) list"

definition obj_get :: "obj \<Rightarrow> string \<Rightarrow> val" where
  "obj_get ob k = (case map_of ob k of None \<Rightarrow> Undefined | Some v \<Rightarrow> v)"

text \<open>
  \<open>rows[0]\<close>: the first row of a result, \<open>undefined\<close> when the result is empty.
\<close>

definition first_row :: "obj list \<Rightarrow> val" where
  "first_row rows = (case rows of [] \<Rightarrow> Undefined | r # _ \<Rightarrow> Obj r)"

text \<open>
  Modelled from the spec: \<open>expressError.js\<close> is not among the sources. The two failure
  kinds of the error taxonomy, \<open>BadRequest\<close> and \<open>NotFound\<close>, are the \<open>ExpressError\<close>s
  that carry the HTTP status 400 and 404; \<open>ExpressError message status\<close> is the
  constructor call the repository itself makes in \<open>findAll\<close>. A failure raised by the
  store is a \<open>StoreError\<close>; the repository never catches one.
\<close>

datatype error = ExpressError string nat | StoreError string

definition BadRequestError :: "string \<Rightarrow> error" where
  "BadRequestError message = ExpressError message 400"

definition NotFoundError :: "string \<Rightarrow> error" where
  "NotFoundError message = ExpressError message 404"

subsection \<open>Numbers in template strings\<close>

fun show_nat :: "nat \<Rightarrow> string" where
  "show_nat n =
     (if n < 10 then [''0123456789'' ! n]
      else show_nat (n div 10) @ [''0123456789'' ! (n mod 10)])"

declare show_nat.simps [simp del]

definition show_int :: "int \<Rightarrow> string" where
  "show_int i = (if i < 0 then ''-'' @ show_nat (nat (- i)) else show_nat (nat i))"

text \<open>\<open>Array.prototype.join\<close>.\<close>

fun join :: "string \<Rightarrow> string list \<Rightarrow> string" where
  "join sep [] = []"
| "join sep [x] = x"
| "join sep (x # y # ys) = x @ sep @ join sep (y # ys)"

section \<open>The store\<close>

text \<open>
  The repository talks to a PostgreSQL store through \<open>db.query(text, params)\<close>. The
  store is not part of the sources; what follows is a model of it for the statements
  this repository sends: a lexer and a parser for that fragment of SQL, and an
  executor over the two tables of the schema. Three rules of PostgreSQL matter below
  and are modelled as PostgreSQL has them: an unquoted identifier is folded to lower
  case while a quoted one keeps its spelling; a reserved word such as \<open>FROM\<close> cannot
  stand where a column is expected; and a statement is checked against the schema
  (tables, columns, parameter count and types, the 32-bit range of an \<open>integer\<close>)
  before any row is touched.
\<close>

subsection \<open>Lexer\<close>

datatype token = TWord string | TQuoted string | TParam nat | TNumber nat | TSym string

datatype lexstate =
  Idle | InWord string | InQuoted string | InParam string | InNumber string | AfterGt

definition is_space :: "char \<Rightarrow> bool" where
  "is_space c = (c \<in> set [CHR '' '', CHR ''\<newline>'', CHR 0x09, CHR 0x0D])"

definition is_digit :: "char \<Rightarrow> bool" where
  "is_digit c = (c \<in> set ''0123456789'')"

definition is_letter :: "char \<Rightarrow> bool" where
  "is_letter c = (c \<in> set ''abcdefghijklmnopqrstuvwxyzABCDEFGHIJKLMNOPQRSTUVWXYZ_'')"

definition digit_val :: "char \<Rightarrow> nat" where
  "digit_val c = of_char c - 48"

definition nat_of_digits :: "string \<Rightarrow> nat" where
  "nat_of_digits ds = foldl (\<lambda>n c. 10 * n + digit_val c) 0 ds"

definition to_lower :: "char \<Rightarrow> char" where
  "to_lower c =
     (case map_of (zip ''ABCDEFGHIJKLMNOPQRSTUVWXYZ'' ''abcdefghijklmnopqrstuvwxyz'') c of
        None \<Rightarrow> c | Some l \<Rightarrow> l)"

definition lower :: "string \<Rightarrow> string" where
  "lower s = map to_lower s"

definition lex_start :: "char \<Rightarrow> (token list \<times> lexstate) option" where
  "lex_start c =
     (if is_space c then Some ([], Idle)
      else if c = CHR 0x22 then Some ([], InQuoted [])
      else if c = CHR ''$'' then Some ([], InParam [])
      else if is_digit c then Some ([], InNumber [c])
      else if is_letter c then Some ([], InWord [c])
      else if c = CHR ''>'' then Some ([], AfterGt)
      else if c \<in> set '',()='' then Some ([TSym [c]], Idle)
      else None)"

definition emit :: "token \<Rightarrow> (token list \<times> lexstate) option \<Rightarrow> (token list \<times> lexstate) option" where
  "emit t r = (case r of None \<Rightarrow> None | Some (ts, st) \<Rightarrow> Some (t # ts, st))"

fun lex_step :: "lexstate \<Rightarrow> char \<Rightarrow> (token list \<times> lexstate) option" where
  "lex_step Idle c = lex_start c"
| "lex_step (InWord w) c =
     (if is_letter c \<or> is_digit c then Some ([], InWord (w @ [c]))
      else emit (TWord w) (lex_start c))"
| "lex_step (InQuoted q) c =
     (if c = CHR 0x22 then Some ([TQuoted q], Idle) else Some ([], InQuoted (q @ [c])))"
| "lex_step (InParam ds) c =
     (if is_digit c then Some ([], InParam (ds @ [c]))
      else if ds = [] then None
      else emit (TParam (nat_of_digits ds)) (lex_start c))"
| "lex_step (InNumber ds) c =
     (if is_digit c then Some ([], InNumber (ds @ [c]))
      else emit (TNumber (nat_of_digits ds)) (lex_start c))"
| "lex_step AfterGt c =
     (if c = CHR ''='' then Some ([TSym ''>=''], Idle) else emit (TSym ''>'') (lex_start c))"

fun lex_end :: "lexstate \<Rightarrow> token list option" where
  "lex_end Idle = Some []"
| "lex_end (InWord w) = Some [TWord w]"
| "lex_end (InQuoted q) = None"
| "lex_end (InParam ds) = (if ds = [] then None else Some [TParam (nat_of_digits ds)])"
| "lex_end (InNumber ds) = Some [TNumber (nat_of_digits ds)]"
| "lex_end AfterGt = Some [TSym ''>'']"

fun lex_run :: "lexstate \<Rightarrow> string \<Rightarrow> token list option" where
  "lex_run st [] = lex_end st"
| "lex_run st (c # cs) =
     (case lex_step st c of
        None \<Rightarrow> None
      | Some (ts, st') \<Rightarrow> map_option ((@) ts) (lex_run st' cs))"

definition lex_sql :: "string \<Rightarrow> token list option" where
  "lex_sql text = lex_run Idle text"

subsection \<open>Parser\<close>

text \<open>
  A statement is a \<open>SELECT\<close>, \<open>INSERT\<close>, \<open>UPDATE\<close> or \<open>DELETE\<close> on one table. A select
  or returning item is a column with the name it has in the result row; a condition
  compares a column with a parameter or a number; conditions are joined by \<open>AND\<close>.
\<close>

datatype operand = OParam nat | ONum nat

datatype cond = Cond string string operand

type_synonym item = "string \<times> string"

datatype stmt =
    SqlSelect "item list" string "cond list" "string option"
  | SqlInsert string "string list" "operand list" "item list"
  | SqlUpdate string "(string \<times> operand) list" "cond list" "item list"
  | SqlDelete string "cond list" "item list"

fun token_text :: "token \<Rightarrow> string" where
  "token_text (TWord w) = w"
| "token_text (TQuoted q) = [CHR 0x22] @ q @ [CHR 0x22]"
| "token_text (TParam n) = ''$'' @ show_nat n"
| "token_text (TNumber n) = show_nat n"
| "token_text (TSym s) = s"

definition syntax_error :: "token list \<Rightarrow> string + 'a" where
  "syntax_error ts =
     (case ts of
        [] \<Rightarrow> Inl ''syntax error at end of input''
      | t # _ \<Rightarrow> Inl (''syntax error at or near '' @ [CHR 0x22] @ token_text t @ [CHR 0x22]))"

text \<open>The reserved words of PostgreSQL among the words of this fragment.\<close>

definition reserved :: "string list" where
  "reserved = [''select'', ''from'', ''where'', ''order'', ''and'', ''as'', ''into'',
     ''returning'', ''ilike'']"

definition is_kw :: "string \<Rightarrow> token \<Rightarrow> bool" where
  "is_kw k t = (case t of TWord w \<Rightarrow> lower w = k | _ \<Rightarrow> False)"

definition ident_of :: "token \<Rightarrow> string option" where
  "ident_of t =
     (case t of
        TWord w \<Rightarrow> if lower w \<in> set reserved then None else Some (lower w)
      | TQuoted q \<Rightarrow> Some q
      | _ \<Rightarrow> None)"

definition label_of :: "token \<Rightarrow> string option" where
  "label_of t = (case t of TWord w \<Rightarrow> Some (lower w) | TQuoted q \<Rightarrow> Some q | _ \<Rightarrow> None)"

definition operand_of :: "token \<Rightarrow> operand option" where
  "operand_of t = (case t of TParam n \<Rightarrow> Some (OParam n) | TNumber n \<Rightarrow> Some (ONum n) | _ \<Rightarrow> None)"

definition op_of :: "token \<Rightarrow> string option" where
  "op_of t =
     (case t of
        TSym s \<Rightarrow> if s \<in> set [''='', ''>='', ''>''] then Some s else None
      | TWord w \<Rightarrow> if lower w = ''ilike'' then Some ''ilike'' else None
      | _ \<Rightarrow> None)"

definition pcons :: "'a \<Rightarrow> string + ('a list \<times> token list) \<Rightarrow> string + ('a list \<times> token list)" where
  "pcons x r = (case r of Inl e \<Rightarrow> Inl e | Inr (xs, rest) \<Rightarrow> Inr (x # xs, rest))"

definition sbind :: "string + 'a \<Rightarrow> ('a \<Rightarrow> string + 'b) \<Rightarrow> string + 'b" where
  "sbind m f = (case m of Inl e \<Rightarrow> Inl e | Inr x \<Rightarrow> f x)"

fun parse_items :: "token list \<Rightarrow> string + (item list \<times> token list)" where
  "parse_items [] = syntax_error []"
| "parse_items (t # ts) =
     (case ident_of t of
        None \<Rightarrow> syntax_error (t # ts)
      | Some c \<Rightarrow>
          (case ts of
             [] \<Rightarrow> Inr ([(c, c)], [])
           | u # us \<Rightarrow>
               if u = TSym '','' then pcons (c, c) (parse_items us)
               else if is_kw ''as'' u then
                 (case us of
                    [] \<Rightarrow> syntax_error []
                  | a # vs \<Rightarrow>
                      (case label_of a of
                         None \<Rightarrow> syntax_error us
                       | Some n \<Rightarrow>
                           (case vs of
                              [] \<Rightarrow> Inr ([(c, n)], [])
                            | w # ws \<Rightarrow>
                                if w = TSym '','' then pcons (c, n) (parse_items ws)
                                else Inr ([(c, n)], vs))))
               else Inr ([(c, c)], ts)))"

fun parse_conds :: "token list \<Rightarrow> string + (cond list \<times> token list)" where
  "parse_conds (a # b # c # rest) =
     (case ident_of a of
        None \<Rightarrow> syntax_error (a # b # c # rest)
      | Some col \<Rightarrow>
          (case op_of b of
             None \<Rightarrow> syntax_error (b # c # rest)
           | Some opr \<Rightarrow>
               (case operand_of c of
                  None \<Rightarrow> syntax_error (c # rest)
                | Some x \<Rightarrow>
                    (case rest of
                       [] \<Rightarrow> Inr ([Cond col opr x], [])
                     | t # rest' \<Rightarrow>
                         if is_kw ''and'' t then pcons (Cond col opr x) (parse_conds rest')
                         else Inr ([Cond col opr x], rest)))))"
| "parse_conds ts = syntax_error []"

fun parse_assigns :: "token list \<Rightarrow> string + ((string \<times> operand) list \<times> token list)" where
  "parse_assigns (a # b # c # rest) =
     (case ident_of a of
        None \<Rightarrow> syntax_error (a # b # c # rest)
      | Some col \<Rightarrow>
          if b \<noteq> TSym ''='' then syntax_error (b # c # rest)
          else
            (case operand_of c of
               None \<Rightarrow> syntax_error (c # rest)
             | Some x \<Rightarrow>
                 (case rest of
                    [] \<Rightarrow> Inr ([(col, x)], [])
                  | t # rest' \<Rightarrow>
                      if t = TSym '','' then pcons (col, x) (parse_assigns rest')
                      else Inr ([(col, x)], rest))))"
| "parse_assigns ts = syntax_error []"

fun parse_list :: "(token \<Rightarrow> 'a option) \<Rightarrow> token list \<Rightarrow> string + ('a list \<times> token list)" where
  "parse_list f [] = syntax_error []"
| "parse_list f (t # ts) =
     (case f t of
        None \<Rightarrow> syntax_error (t # ts)
      | Some x \<Rightarrow>
          (case ts of
             [] \<Rightarrow> Inr ([x], [])
           | u # us \<Rightarrow>
               if u = TSym '','' then pcons x (parse_list f us) else Inr ([x], ts)))"

definition parens :: "(token list \<Rightarrow> string + ('a \<times> token list)) \<Rightarrow> token list \<Rightarrow> string + ('a \<times> token list)" where
  "parens p ts =
     (case ts of
        [] \<Rightarrow> syntax_error []
      | t # rest \<Rightarrow>
          if t \<noteq> TSym ''('' then syntax_error ts
          else
            (case p rest of
               Inl e \<Rightarrow> Inl e
             | Inr (x, r) \<Rightarrow>
                 (case r of
                    [] \<Rightarrow> syntax_error []
                  | u # r' \<Rightarrow> if u = TSym '')'' then Inr (x, r') else syntax_error r)))"

definition expect_kw :: "string \<Rightarrow> token list \<Rightarrow> string + token list" where
  "expect_kw k ts =
     (case ts of
        [] \<Rightarrow> syntax_error []
      | t # rest \<Rightarrow> if is_kw k t then Inr rest else syntax_error ts)"

definition parse_name :: "token list \<Rightarrow> string + (string \<times> token list)" where
  "parse_name ts =
     (case ts of
        [] \<Rightarrow> syntax_error []
      | t # rest \<Rightarrow> (case ident_of t of None \<Rightarrow> syntax_error ts | Some n \<Rightarrow> Inr (n, rest)))"

definition parse_where :: "token list \<Rightarrow> string + (cond list \<times> token list)" where
  "parse_where ts =
     (case ts of
        [] \<Rightarrow> Inr ([], [])
      | t # rest \<Rightarrow> if is_kw ''where'' t then parse_conds rest else Inr ([], ts))"

definition parse_order :: "token list \<Rightarrow> string + (string option \<times> token list)" where
  "parse_order ts =
     (case ts of
        [] \<Rightarrow> Inr (None, [])
      | t # rest \<Rightarrow>
          if is_kw ''order'' t then
            sbind (expect_kw ''by'' rest) (\<lambda>r1.
            sbind (parse_name r1) (\<lambda>(c, r2). Inr (Some c, r2)))
          else Inr (None, ts))"

definition parse_returning :: "token list \<Rightarrow> string + (item list \<times> token list)" where
  "parse_returning ts =
     (case ts of
        [] \<Rightarrow> Inr ([], [])
      | t # rest \<Rightarrow> if is_kw ''returning'' t then parse_items rest else Inr ([], ts))"

definition finish :: "stmt \<Rightarrow> token list \<Rightarrow> string + stmt" where
  "finish s rest = (if rest = [] then Inr s else syntax_error rest)"

definition parse_select :: "token list \<Rightarrow> string + stmt" where
  "parse_select ts =
     sbind (parse_items ts) (\<lambda>(its, r1).
     sbind (expect_kw ''from'' r1) (\<lambda>r2.
     sbind (parse_name r2) (\<lambda>(tbl, r3).
     sbind (parse_where r3) (\<lambda>(conds, r4).
     sbind (parse_order r4) (\<lambda>(ord, r5).
     finish (SqlSelect its tbl conds ord) r5)))))"

definition parse_insert :: "token list \<Rightarrow> string + stmt" where
  "parse_insert ts =
     sbind (expect_kw ''into'' ts) (\<lambda>r1.
     sbind (parse_name r1) (\<lambda>(tbl, r2).
     sbind (parens (parse_list ident_of) r2) (\<lambda>(cols, r3).
     sbind (expect_kw ''values'' r3) (\<lambda>r4.
     sbind (parens (parse_list operand_of) r4) (\<lambda>(xs, r5).
     sbind (parse_returning r5) (\<lambda>(ret, r6).
     finish (SqlInsert tbl cols xs ret) r6))))))"

definition parse_update :: "token list \<Rightarrow> string + stmt" where
  "parse_update ts =
     sbind (parse_name ts) (\<lambda>(tbl, r1).
     sbind (expect_kw ''set'' r1) (\<lambda>r2.
     sbind (parse_assigns r2) (\<lambda>(asg, r3).
     sbind (parse_where r3) (\<lambda>(conds, r4).
     sbind (parse_returning r4) (\<lambda>(ret, r5).
     finish (SqlUpdate tbl asg conds ret) r5)))))"

definition parse_delete :: "token list \<Rightarrow> string + stmt" where
  "parse_delete ts =
     sbind (expect_kw ''from'' ts) (\<lambda>r1.
     sbind (parse_name r1) (\<lambda>(tbl, r2).
     sbind (parse_where r2) (\<lambda>(conds, r3).
     sbind (parse_returning r3) (\<lambda>(ret, r4).
     finish (SqlDelete tbl conds ret) r4))))"

definition parse_sql :: "string \<Rightarrow> string + stmt" where
  "parse_sql text =
     (case lex_sql text of
        None \<Rightarrow> Inl ''syntax error: unreadable character or unterminated identifier''
      | Some [] \<Rightarrow> syntax_error []
      | Some (t # rest) \<Rightarrow>
          if is_kw ''select'' t then parse_select rest
          else if is_kw ''insert'' t then parse_insert rest
          else if is_kw ''update'' t then parse_update rest
          else if is_kw ''delete'' t then parse_delete rest
          else syntax_error (t # rest))"

subsection \<open>Tables\<close>

text \<open>
  Modelled from the spec: the schema file is not among the sources; this is the
  persisted schema of the spec's section 6:
  \<^verbatim>\<open>jobs(id serial primary key, title text not null, salary integer, equity numeric,
       company_handle text not null references companies(handle))\<close>
  \<^verbatim>\<open>companies(handle text primary key, name text, description text,
            num_employees integer, logo_url text)\<close>
  An \<open>integer\<close> column holds a signed 32-bit word, read as an integer by \<open>sint\<close>:
  \<open>job_id\<close>, \<open>job_salary\<close> and \<open>co_num_employees\<close> are these readings, so that a value
  in a table is always within \<open>-2147483648 .. 2147483647\<close>. A nullable column holds an
  option. The state of the store is the two tables, the
  next value of the \<open>id\<close> sequence, and \<open>sent\<close>, the list of the statements received so
  far, each with its parameters: the record of every round trip to the store.
\<close>

record job_row =
  job_id_word :: "32 word"
  job_title :: string
  job_salary_word :: "32 word option"
  job_equity :: "rat option"
  job_company_handle :: string

record company_row =
  co_handle :: string
  co_name :: "string option"
  co_description :: "string option"
  co_num_employees_word :: "32 word option"
  co_logo_url :: "string option"

definition job_id :: "job_row \<Rightarrow> int" where
  "job_id j = sint (job_id_word j)"

definition job_salary :: "job_row \<Rightarrow> int option" where
  "job_salary j = map_option sint (job_salary_word j)"

definition co_num_employees :: "company_row \<Rightarrow> int option" where
  "co_num_employees c = map_option sint (co_num_employees_word c)"

record db =
  jobs :: "job_row list"
  companies :: "company_row list"
  next_id :: int
  sent :: "(string \<times> val list) list"

datatype coltype = IntCol | NumCol | TextCol

definition jobs_columns :: "(string \<times> coltype) list" where
  "jobs_columns = [(''id'', IntCol), (''title'', TextCol), (''salary'', IntCol), (''equity'', NumCol),
     (''company_handle'', TextCol)]"

definition companies_columns :: "(string \<times> coltype) list" where
  "companies_columns = [(''handle'', TextCol), (''name'', TextCol), (''description'', TextCol),
     (''num_employees'', IntCol), (''logo_url'', TextCol)]"

definition num_val :: "int option \<Rightarrow> val" where
  "num_val x = (case x of None \<Rightarrow> Null | Some i \<Rightarrow> Num i)"

definition dec_val :: "rat option \<Rightarrow> val" where
  "dec_val x = (case x of None \<Rightarrow> Null | Some q \<Rightarrow> Dec q)"

definition str_val :: "string option \<Rightarrow> val" where
  "str_val x = (case x of None \<Rightarrow> Null | Some s \<Rightarrow> Str s)"

definition row_of_job :: "job_row \<Rightarrow> obj" where
  "row_of_job j = [(''id'', Num (job_id j)), (''title'', Str (job_title j)),
     (''salary'', num_val (job_salary j)), (''equity'', dec_val (job_equity j)),
     (''company_handle'', Str (job_company_handle j))]"

definition row_of_company :: "company_row \<Rightarrow> obj" where
  "row_of_company c = [(''handle'', Str (co_handle c)), (''name'', str_val (co_name c)),
     (''description'', str_val (co_description c)),
     (''num_employees'', num_val (co_num_employees c)),
     (''logo_url'', str_val (co_logo_url c))]"

text \<open>
  A row written to \<open>jobs\<close>: \<open>id\<close>, \<open>title\<close> and \<open>company_handle\<close> are \<open>not null\<close>, so a
  row without one of them is refused (\<open>None\<close>). The integers written have passed the
  range check of the statement, so \<open>word_of_int\<close> keeps their value.
\<close>

definition job_of_row :: "obj \<Rightarrow> job_row option" where
  "job_of_row r =
     (case (map_of r ''id'', map_of r ''title'', map_of r ''company_handle'') of
        (Some (Num i), Some (Str t), Some (Str h)) \<Rightarrow>
          Some \<lparr>job_id_word = word_of_int i, job_title = t,
            job_salary_word =
              (case map_of r ''salary'' of Some (Num n) \<Rightarrow> Some (word_of_int n) | _ \<Rightarrow> None),
            job_equity = (case map_of r ''equity'' of
                            Some (Num n) \<Rightarrow> Some (of_int n)
                          | Some (Dec q) \<Rightarrow> Some q
                          | _ \<Rightarrow> None),
            job_company_handle = h\<rparr>
      | _ \<Rightarrow> None)"

definition table_of :: "db \<Rightarrow> string \<Rightarrow> ((string \<times> coltype) list \<times> obj list) option" where
  "table_of d t =
     (if t = ''jobs'' then Some (jobs_columns, map row_of_job (jobs d))
      else if t = ''companies'' then Some (companies_columns, map row_of_company (companies d))
      else None)"

subsection \<open>Checking a statement against the schema\<close>

text \<open>
  A parameter \<open>$k\<close> is the \<open>k\<close>-th value of the parameter list, counted from 1; a
  statement that names a parameter the list does not have is refused. \<open>undefined\<close>
  is sent as \<open>null\<close>. A value must have the type of the column it meets: an integer
  for an integer column, an integer or a decimal for a numeric one, a string for a
  text column, \<open>null\<close> for any. (The model is stricter than the store here: it refuses
  a value of another type, which the store would first try to convert.) An integer
  that meets an \<open>integer\<close> column must be within the 32 bits of the type; the store
  fails with its out-of-range error (22003) otherwise.
\<close>

definition refused :: error where
  "refused = StoreError ''statement refused by the schema check''"

definition out_of_range :: error where
  "out_of_range = StoreError ''value is out of range for type integer''"

definition int4 :: "int \<Rightarrow> bool" where
  "int4 i = (- 2147483648 \<le> i \<and> i \<le> 2147483647)"

fun fits :: "coltype \<Rightarrow> val \<Rightarrow> bool" where
  "fits ty Undefined = True"
| "fits ty Null = True"
| "fits ty (Bool b) = False"
| "fits ty (Num i) = (ty \<noteq> TextCol)"
| "fits ty (Dec q) = (ty = NumCol)"
| "fits ty (Str s) = (ty = TextCol)"
| "fits ty (Obj ob) = False"

definition check_value :: "coltype \<Rightarrow> val \<Rightarrow> error option" where
  "check_value ty v =
     (if fits ty v
      then (case v of
              Num i \<Rightarrow> if ty = IntCol \<and> \<not> int4 i then Some out_of_range else None
            | _ \<Rightarrow> None)
      else Some refused)"

definition check_operand :: "coltype \<Rightarrow> val list \<Rightarrow> operand \<Rightarrow> error option" where
  "check_operand ty ps x =
     (case x of
        OParam k \<Rightarrow> if 1 \<le> k \<and> k \<le> length ps then check_value ty (ps ! (k - 1)) else Some refused
      | ONum n \<Rightarrow> if ty = TextCol then Some refused else None)"

definition operand_val :: "val list \<Rightarrow> operand \<Rightarrow> val option" where
  "operand_val ps x =
     (case x of
        OParam k \<Rightarrow> if 1 \<le> k \<and> k \<le> length ps then Some (ps ! (k - 1)) else None
      | ONum n \<Rightarrow> Some (Num (int n)))"

definition cond_error :: "(string \<times> coltype) list \<Rightarrow> val list \<Rightarrow> cond \<Rightarrow> error option" where
  "cond_error cols ps c =
     (case c of Cond col opr x \<Rightarrow>
        (case map_of cols col of
           None \<Rightarrow> Some refused
         | Some ty \<Rightarrow>
             if (if opr = ''ilike'' then ty = TextCol
                 else if opr = ''='' then True else ty \<noteq> TextCol)
             then check_operand ty ps x
             else Some refused))"

definition assign_error :: "(string \<times> coltype) list \<Rightarrow> val list \<Rightarrow> string \<times> operand \<Rightarrow> error option" where
  "assign_error cols ps a =
     (case map_of cols (fst a) of
        None \<Rightarrow> Some refused
      | Some ty \<Rightarrow> check_operand ty ps (snd a))"

fun first_error :: "error option list \<Rightarrow> error option" where
  "first_error [] = None"
| "first_error (None # es) = first_error es"
| "first_error (Some e # es) = Some e"

definition items_ok :: "(string \<times> coltype) list \<Rightarrow> item list \<Rightarrow> bool" where
  "items_ok cols its = list_all (\<lambda>it. map_of cols (fst it) \<noteq> None) its"

subsection \<open>Evaluating conditions\<close>

text \<open>
  \<open>ILIKE\<close>: the pattern matches the whole string without regard to case; \<open>%\<close> stands
  for any run of characters and \<open>_\<close> for any one character. A comparison with \<open>null\<close>
  never holds.
\<close>

fun like :: "string \<Rightarrow> string \<Rightarrow> bool" where
  "like [] s = (s = [])"
| "like (p # ps) [] = (p = CHR ''%'' \<and> like ps [])"
| "like (p # ps) (c # cs) =
     (if p = CHR ''%'' then like ps (c # cs) \<or> like (p # ps) cs
      else (p = CHR ''_'' \<or> p = c) \<and> like ps cs)"

definition ilike :: "string \<Rightarrow> string \<Rightarrow> bool" where
  "ilike s pat = like (lower pat) (lower s)"

definition num_of :: "val \<Rightarrow> rat option" where
  "num_of v = (case v of Num i \<Rightarrow> Some (of_int i) | Dec q \<Rightarrow> Some q | _ \<Rightarrow> None)"

definition compare :: "string \<Rightarrow> val \<Rightarrow> val \<Rightarrow> bool" where
  "compare opr a b =
     (case (num_of a, num_of b) of
        (Some x, Some y) \<Rightarrow>
          if opr = ''='' then x = y
          else if opr = ''>='' then x \<ge> y
          else if opr = ''>'' then x > y
          else False
      | _ \<Rightarrow>
          (case (a, b) of
             (Str s, Str t) \<Rightarrow>
               if opr = ''='' then s = t
               else if opr = ''ilike'' then ilike s t
               else False
           | _ \<Rightarrow> False))"

definition cond_holds :: "obj \<Rightarrow> val list \<Rightarrow> cond \<Rightarrow> bool" where
  "cond_holds r ps c =
     (case c of Cond col opr x \<Rightarrow>
        (case (map_of r col, operand_val ps x) of
           (Some a, Some b) \<Rightarrow> compare opr a b
         | _ \<Rightarrow> False))"

definition matches :: "cond list \<Rightarrow> val list \<Rightarrow> obj \<Rightarrow> bool" where
  "matches conds ps r = list_all (cond_holds r ps) conds"

definition project :: "item list \<Rightarrow> obj \<Rightarrow> obj" where
  "project its r = map (\<lambda>it. (snd it, case map_of r (fst it) of None \<Rightarrow> Null | Some v \<Rightarrow> v)) its"

subsection \<open>Ordering\<close>

text \<open>
  \<open>ORDER BY column\<close>, ascending: a stable insertion sort; numbers by value, strings
  character by character (the store's collation is not modelled), \<open>null\<close> last.
\<close>

fun str_le :: "string \<Rightarrow> string \<Rightarrow> bool" where
  "str_le [] t = True"
| "str_le (a # s) [] = False"
| "str_le (a # s) (b # t) =
     ((of_char a :: nat) < of_char b \<or> (a = b \<and> str_le s t))"

definition val_le :: "val \<Rightarrow> val \<Rightarrow> bool" where
  "val_le a b =
     (case (num_of a, num_of b) of
        (Some x, Some y) \<Rightarrow> x \<le> y
      | _ \<Rightarrow>
          (case (a, b) of
             (Str s, Str t) \<Rightarrow> str_le s t
           | (_, Null) \<Rightarrow> True
           | _ \<Rightarrow> False))"

fun insert_row :: "string \<Rightarrow> obj \<Rightarrow> obj list \<Rightarrow> obj list" where
  "insert_row col r [] = [r]"
| "insert_row col r (x # xs) =
     (if val_le (obj_get x col) (obj_get r col) then x # insert_row col r xs else r # x # xs)"

definition sort_rows :: "string option \<Rightarrow> obj list \<Rightarrow> obj list" where
  "sort_rows ord rows =
     (case ord of None \<Rightarrow> rows | Some col \<Rightarrow> foldl (\<lambda>acc r. insert_row col r acc) [] rows)"

subsection \<open>Executing a statement\<close>

definition arg :: "val list \<Rightarrow> operand \<Rightarrow> val" where
  "arg ps x = (case operand_val ps x of None \<Rightarrow> Null | Some v \<Rightarrow> v)"

definition order_ok :: "(string \<times> coltype) list \<Rightarrow> string option \<Rightarrow> bool" where
  "order_ok cols ord = (case ord of None \<Rightarrow> True | Some c \<Rightarrow> map_of cols c \<noteq> None)"

definition exec_select :: "item list \<Rightarrow> string \<Rightarrow> cond list \<Rightarrow> string option \<Rightarrow> val list \<Rightarrow> db \<Rightarrow> error + obj list" where
  "exec_select its t conds ord ps d =
     (case table_of d t of
        None \<Rightarrow> Inl (StoreError ''relation does not exist'')
      | Some (cols, rows) \<Rightarrow>
          if items_ok cols its \<and> order_ok cols ord
          then
            (case first_error (map (cond_error cols ps) conds) of
               Some e \<Rightarrow> Inl e
             | None \<Rightarrow> Inr (map (project its) (sort_rows ord (filter (matches conds ps) rows))))
          else Inl refused)"

text \<open>
  The repository writes to \<open>jobs\<close> only; a write to another table is outside the model
  and is refused. A new row takes its \<open>id\<close> from the sequence. The primary key and the
  reference to \<open>companies\<close> are checked for the rows a statement writes. A statement
  that fails changes no table.
\<close>

definition exec_insert :: "string \<Rightarrow> string list \<Rightarrow> operand list \<Rightarrow> item list \<Rightarrow> val list \<Rightarrow> db \<Rightarrow> (error + obj list) \<times> db" where
  "exec_insert t cols xs ret ps d =
     (if t = ''jobs'' \<and> length cols = length xs \<and> distinct cols \<and> items_ok jobs_columns ret
      then
        (case first_error (map (assign_error jobs_columns ps) (zip cols xs)) of
           Some e \<Rightarrow> (Inl e, d)
         | None \<Rightarrow>
            (let d1 = d\<lparr>next_id := next_id d + 1\<rparr>;
                 r = map (\<lambda>a. (fst a, arg ps (snd a))) (zip cols xs) @ [(''id'', Num (next_id d))]
             in if int4 (next_id d)
                then
                  (case job_of_row r of
                     None \<Rightarrow> (Inl (StoreError ''null value violates not-null constraint''), d1)
                   | Some j \<Rightarrow>
                       if job_id j \<in> set (map job_id (jobs d))
                       then (Inl (StoreError ''duplicate key value violates unique constraint''), d1)
                       else if job_company_handle j \<in> set (map co_handle (companies d))
                       then (Inr [project ret (row_of_job j)], d1\<lparr>jobs := jobs d @ [j]\<rparr>)
                       else (Inl (StoreError ''insert violates foreign key constraint''), d1))
                else (Inl out_of_range, d1)))
      else (Inl refused, d))"

definition exec_update :: "string \<Rightarrow> (string \<times> operand) list \<Rightarrow> cond list \<Rightarrow> item list \<Rightarrow> val list \<Rightarrow> db \<Rightarrow> (error + obj list) \<times> db" where
  "exec_update t asg conds ret ps d =
     (if t = ''jobs'' \<and> distinct (map fst asg) \<and> items_ok jobs_columns ret
      then
        (case first_error (map (assign_error jobs_columns ps) asg
                            @ map (cond_error jobs_columns ps) conds) of
           Some e \<Rightarrow> (Inl e, d)
         | None \<Rightarrow>
            (let hit = (\<lambda>j. matches conds ps (row_of_job j));
                 write = (\<lambda>j. job_of_row (map (\<lambda>a. (fst a, arg ps (snd a))) asg @ row_of_job j))
             in case those (map write (filter hit (jobs d))) of
                  None \<Rightarrow> (Inl (StoreError ''null value violates not-null constraint''), d)
                | Some written \<Rightarrow>
                    (let js = map (\<lambda>j. if hit j then (case write j of None \<Rightarrow> j | Some j' \<Rightarrow> j') else j)
                                (jobs d)
                     in if ''id'' \<in> set (map fst asg) \<and> \<not> distinct (map job_id js)
                        then (Inl (StoreError ''duplicate key value violates unique constraint''), d)
                        else if ''company_handle'' \<in> set (map fst asg)
                                \<and> \<not> list_all (\<lambda>j. job_company_handle j \<in> set (map co_handle (companies d))) written
                        then (Inl (StoreError ''update violates foreign key constraint''), d)
                        else (Inr (map (\<lambda>j. project ret (row_of_job j)) written), d\<lparr>jobs := js\<rparr>))))
      else (Inl refused, d))"

definition exec_delete :: "string \<Rightarrow> cond list \<Rightarrow> item list \<Rightarrow> val list \<Rightarrow> db \<Rightarrow> (error + obj list) \<times> db" where
  "exec_delete t conds ret ps d =
     (if t = ''jobs'' \<and> items_ok jobs_columns ret
      then
        (case first_error (map (cond_error jobs_columns ps) conds) of
           Some e \<Rightarrow> (Inl e, d)
         | None \<Rightarrow>
            (let hit = (\<lambda>j. matches conds ps (row_of_job j))
             in (Inr (map (\<lambda>j. project ret (row_of_job j)) (filter hit (jobs d))),
                 d\<lparr>jobs := filter (\<lambda>j. \<not> hit j) (jobs d)\<rparr>)))
      else (Inl refused, d))"

fun exec :: "stmt \<Rightarrow> val list \<Rightarrow> db \<Rightarrow> (error + obj list) \<times> db" where
  "exec (SqlSelect its t conds ord) ps d = (exec_select its t conds ord ps d, d)"
| "exec (SqlInsert t cols xs ret) ps d = exec_insert t cols xs ret ps d"
| "exec (SqlUpdate t asg conds ret) ps d = exec_update t asg conds ret ps d"
| "exec (SqlDelete t conds ret) ps d = exec_delete t conds ret ps d"

text \<open>
  \<open>db.query(text, params)\<close>: one round trip. The statement is recorded among the
  statements sent, then parsed; a statement that does not parse fails with the parser's message and touches
  no table.
\<close>

definition db_query :: "db \<Rightarrow> string \<Rightarrow> val list \<Rightarrow> (error + obj list) \<times> db" where
  "db_query d text ps =
     (let d1 = d\<lparr>sent := sent d @ [(text, ps)]\<rparr>
      in case parse_sql text of
           Inl msg \<Rightarrow> (Inl (StoreError msg), d1)
         | Inr st \<Rightarrow> exec st ps d1)"

section \<open>The partial-update builder\<close>

text \<open>
  Modelled from the spec: \<open>helpers/sql.js\<close>, which holds \<open>sqlForPartialUpdate\<close>, is not
  among the sources. The spec: an empty input map fails with \<open>BadRequest\<close> ("no data");
  each entry emits one \<open>column = placeholder\<close> assignment, the placeholders numbered
  from 1 in the order of the keys; a field name is translated by the name-translation
  table, whose default is the identity; the output is the set clause and the list of
  the values in the same order.
\<close>

definition sqlForPartialUpdate :: "obj \<Rightarrow> (string \<Rightarrow> string option) \<Rightarrow> error + (string \<times> val list)" where
  "sqlForPartialUpdate dataToUpdate jsToSql =
     (if dataToUpdate = [] then Inl (BadRequestError ''no data'')
      else
        (let keys = map fst dataToUpdate;
             cols = map (\<lambda>(idx, colName).
                      (case jsToSql colName of None \<Rightarrow> colName | Some c \<Rightarrow> c)
                        @ '' = $'' @ show_nat (idx + 1)) (enumerate 0 keys)
         in Inr (join '', '' cols, map snd dataToUpdate)))"

section \<open>The Job repository (\<open>models/jobs.js\<close>)\<close>

text \<open>
  The five static methods of the class \<open>Jobs\<close>. Each takes the store and returns its
  result, a failure (\<open>Inl\<close>) where the source throws, together with the store after
  the call. An id is an integer, as the \<open>id\<close> column is; the input of \<open>create\<close> and
  the patch of \<open>update\<close> are plain objects, whose values the repository passes on
  without looking at them.
\<close>

subsection \<open>\<open>create\<close>\<close>

definition create_sql :: string where
  \<open>create_sql =
     ''INSERT INTO jobs\<newline>'' @
     ''           (title, salary, equity, company_handle)\<newline>'' @
     ''           VALUES ($1, $2, $3, $4)\<newline>'' @
     ''           RETURNING id, title, salary, equity, company_handle AS "companyHandle"''\<close>

definition Jobs_create :: "db \<Rightarrow> obj \<Rightarrow> (error + val) \<times> db" where
  "Jobs_create d data =
     (case db_query d create_sql
             [obj_get data ''title'', obj_get data ''salary'', obj_get data ''equity'',
              obj_get data ''companyHandle''] of
        (Inl e, d') \<Rightarrow> (Inl e, d')
      | (Inr rows, d') \<Rightarrow> (Inr (first_row rows), d'))"

subsection \<open>\<open>findAll\<close>\<close>

text \<open>
  The search filter is \<open>{ title?, minSalary?, hasEquity? }\<close>. \<open>title\<close> is a string and
  \<open>minSalary\<close> a number, each absent (\<open>undefined\<close>) or present; numbers are integers
  here, as the \<open>salary\<close> column is, and \<open>minSalary < 0\<close> is false when \<open>minSalary\<close> is
  \<open>undefined\<close>. \<open>hasEquity\<close> is only ever compared with \<open>=== true\<close>, which is defined
  for every value, so it is kept as the value it is (\<open>Undefined\<close> when absent).
\<close>

record searchFilters =
  title :: "string option"
  minSalary :: "int option"
  hasEquity :: val

definition findAll_select :: string where
  \<open>findAll_select =
     ''\<newline>'' @
     ''     SELECT title, \<newline>'' @
     ''            salary, \<newline>'' @
     ''            equity, \<newline>'' @
     ''            company_handle AS "companyHandle",\<newline>'' @
     ''     FROM jobs''\<close>

text \<open>
  Lines 50 to 71 without the check of line 55: the values and the conditions, pushed in
  the order of the source.
\<close>

definition findAll_filters :: "searchFilters \<Rightarrow> val list \<times> string list" where
  "findAll_filters sf =
     (let queryVal = []; whereExp = [];
          (queryVal, whereExp) =
            (case minSalary sf of
               None \<Rightarrow> (queryVal, whereExp)
             | Some m \<Rightarrow>
                 (let queryVal = queryVal @ [Num m]
                  in (queryVal, whereExp @ [''salary >= $'' @ show_nat (length queryVal)])));
          whereExp = (if hasEquity sf = Bool True then whereExp @ [''equity > 0''] else whereExp);
          (queryVal, whereExp) =
            (case title sf of
               None \<Rightarrow> (queryVal, whereExp)
             | Some t \<Rightarrow>
                 (let queryVal = queryVal @ [Str (''%'' @ t @ ''%'')]
                  in (queryVal, whereExp @ [''title ILIKE $'' @ show_nat (length queryVal)])))
      in (queryVal, whereExp))"

text \<open>Lines 43 to 77: the statement text.\<close>

definition findAll_query :: "searchFilters \<Rightarrow> string" where
  "findAll_query sf =
     (let whereExp = snd (findAll_filters sf);
          query = findAll_select;
          query = (if length whereExp > 0 then query @ '' WHERE '' @ join '' AND '' whereExp
                   else query)
      in query @ '' ORDER BY title'')"

text \<open>
  Line 55, \<open>minSalary < 0\<close>; the check reads the filter and changes nothing, and a call
  that fails it ends there, before the values and the conditions are built.
\<close>

definition negative_minSalary :: "searchFilters \<Rightarrow> bool" where
  "negative_minSalary sf = (case minSalary sf of None \<Rightarrow> False | Some m \<Rightarrow> m < 0)"

definition Jobs_findAll :: "db \<Rightarrow> searchFilters \<Rightarrow> (error + obj list) \<times> db" where
  "Jobs_findAll d sf =
     (if negative_minSalary sf
      then (Inl (ExpressError ''Invalid Constraints'' 400), d)
      else
        (case db_query d (findAll_query sf) (fst (findAll_filters sf)) of
           (Inl e, d') \<Rightarrow> (Inl e, d')
         | (Inr rows, d') \<Rightarrow> (Inr rows, d')))"

subsection \<open>\<open>get\<close>\<close>

definition get_job_sql :: string where
  \<open>get_job_sql =
     ''SELECT id,\<newline>'' @
     ''        title, \<newline>'' @
     ''        salary, \<newline>'' @
     ''        equity, \<newline>'' @
     ''        company_handle AS "companyHandle"\<newline>'' @
     ''             FROM jobs\<newline>'' @
     ''             WHERE id = $1''\<close>

definition get_company_sql :: string where
  \<open>get_company_sql =
     ''SELECT handle,\<newline>'' @
     ''                  name,\<newline>'' @
     ''                  description,\<newline>'' @
     ''                  num_employees AS "numEmployees",\<newline>'' @
     ''                  logo_url AS "logoUrl"\<newline>'' @
     ''           FROM companies\<newline>'' @
     ''           WHERE handle = $1''\<close>

text \<open>
  \<open>delete job.companyHandle\<close> removes the key; \<open>job.company = ...\<close> sets the key, also
  when the value assigned is \<open>undefined\<close>.
\<close>

definition Jobs_get :: "db \<Rightarrow> int \<Rightarrow> (error + obj) \<times> db" where
  "Jobs_get d jid =
     (case db_query d get_job_sql [Num jid] of
        (Inl e, d1) \<Rightarrow> (Inl e, d1)
      | (Inr jobRes, d1) \<Rightarrow>
          (case jobRes of
             [] \<Rightarrow> (Inl (NotFoundError (''No job: '' @ show_int jid)), d1)
           | job # _ \<Rightarrow>
               (case db_query d1 get_company_sql [obj_get job ''companyHandle''] of
                  (Inl e, d2) \<Rightarrow> (Inl e, d2)
                | (Inr companyRes, d2) \<Rightarrow>
                    (Inr (AList.update ''company'' (first_row companyRes)
                            (AList.delete ''companyHandle'' job)), d2))))"

subsection \<open>\<open>update\<close>\<close>

text \<open>
  \<open>sqlForPartialUpdate(data)\<close> is called without a name-translation table, so the
  default applies: every key is its own column name.
\<close>

definition update_sql :: "string \<Rightarrow> string \<Rightarrow> string" where
  \<open>update_sql setCols idVarIdx =
     ''UPDATE jobs \<newline>'' @
     ''                      SET '' @ setCols @ '' \<newline>'' @
     ''                      WHERE id = '' @ idVarIdx @ '' \<newline>'' @
     ''                      RETURNING id, \<newline>'' @
     ''                           title, \<newline>'' @
     ''                           salary, \<newline>'' @
     ''                           equity, \<newline>'' @
     ''                           company_handle AS companyHandle''\<close>

definition Jobs_update :: "db \<Rightarrow> int \<Rightarrow> obj \<Rightarrow> (error + obj) \<times> db" where
  "Jobs_update d jid data =
     (case sqlForPartialUpdate data Map.empty of
        Inl e \<Rightarrow> (Inl e, d)
      | Inr (setCols, values) \<Rightarrow>
          (let idVarIdx = ''$'' @ show_nat (length values + 1);
               querySql = update_sql setCols idVarIdx
           in case db_query d querySql (values @ [Num jid]) of
                (Inl e, d') \<Rightarrow> (Inl e, d')
              | (Inr rows, d') \<Rightarrow>
                  (case rows of
                     [] \<Rightarrow> (Inl (NotFoundError (''No company: '' @ show_int jid)), d')
                   | job # _ \<Rightarrow> (Inr job, d'))))"

subsection \<open>\<open>remove\<close>\<close>

definition remove_sql :: string where
  \<open>remove_sql =
     ''DELETE\<newline>'' @
     ''           FROM jobs\<newline>'' @
     ''           WHERE id = $1\<newline>'' @
     ''           RETURNING id''\<close>

definition Jobs_remove :: "db \<Rightarrow> int \<Rightarrow> (error + unit) \<times> db" where
  "Jobs_remove d jid =
     (case db_query d remove_sql [Num jid] of
        (Inl e, d') \<Rightarrow> (Inl e, d')
      | (Inr rows, d') \<Rightarrow>
          (case rows of
             [] \<Rightarrow> (Inl (NotFoundError (''No job: '' @ show_int jid)), d')
           | job # _ \<Rightarrow> (Inr (), d')))"

section \<open>Views and observations\<close>

text \<open>
  The Job as \<open>create\<close> and \<open>get\<close> name its fields, with the raw \<open>companyHandle\<close>, and
  the Company object that \<open>get\<close> embeds.
\<close>

definition job_view :: "job_row \<Rightarrow> obj" where
  "job_view j = [(''id'', Num (job_id j)), (''title'', Str (job_title j)),
     (''salary'', num_val (job_salary j)), (''equity'', dec_val (job_equity j)),
     (''companyHandle'', Str (job_company_handle j))]"

definition company_view :: "company_row \<Rightarrow> obj" where
  "company_view c = [(''handle'', Str (co_handle c)), (''name'', str_val (co_name c)),
     (''description'', str_val (co_description c)),
     (''numEmployees'', num_val (co_num_employees c)),
     (''logoUrl'', str_val (co_logo_url c))]"

text \<open>The placeholder numbers \<open>$n\<close> that occur in a piece of statement text, in order.\<close>

definition placeholders :: "string \<Rightarrow> nat list" where
  "placeholders text =
     (case lex_sql text of
        None \<Rightarrow> []
      | Some ts \<Rightarrow> concat (map (\<lambda>t. case t of TParam n \<Rightarrow> [n] | _ \<Rightarrow> []) ts))"

text \<open>
  The conditions of the \<open>WHERE\<close> clause of a statement text, as the store's lexer and
  parser read them (none when the text has no such clause), and the column a condition
  is about.
\<close>

definition where_conds :: "string \<Rightarrow> cond list" where
  "where_conds text =
     (case lex_sql text of
        None \<Rightarrow> []
      | Some ts \<Rightarrow>
          (case parse_where (dropWhile (\<lambda>t. \<not> is_kw ''where'' t) ts) of
             Inl e \<Rightarrow> []
           | Inr (conds, rest) \<Rightarrow> conds))"

fun cond_column :: "cond \<Rightarrow> string" where
  "cond_column (Cond col opr x) = col"

section \<open>Sample stores\<close>

definition acme :: company_row where
  "acme = \<lparr>co_handle = ''acme'', co_name = Some ''Acme Corp'', co_description = None,
           co_num_employees_word = Some 12, co_logo_url = None\<rparr>"

definition backend :: job_row where
  "backend = \<lparr>job_id_word = 1, job_title = ''Backend Engineer'',
              job_salary_word = Some 120000, job_equity = Some (1 / 100),
              job_company_handle = ''acme''\<rparr>"

definition db0 :: db where
  "db0 = \<lparr>jobs = [backend], companies = [acme], next_id = 2, sent = []\<rparr>"

text \<open>A store whose only Job names a Company that is not there.\<close>

definition db_dangling :: db where
  "db_dangling = \<lparr>jobs = [backend], companies = [], next_id = 2, sent = []\<rparr>"

section \<open>The statements the repository sends, as the store reads them\<close>

lemma parse_create:
  "parse_sql create_sql = Inr (SqlInsert ''jobs'' [''title'', ''salary'', ''equity'', ''company_handle'']
       [OParam 1, OParam 2, OParam 3, OParam 4]
       [(''id'', ''id''), (''title'', ''title''), (''salary'', ''salary''),
        (''equity'', ''equity''), (''company_handle'', ''companyHandle'')])"
  by code_simp

lemma parse_get_job:
  "parse_sql get_job_sql = Inr (SqlSelect [(''id'', ''id''), (''title'', ''title''), (''salary'', ''salary''),
      (''equity'', ''equity''), (''company_handle'', ''companyHandle'')] ''jobs''
      [Cond ''id'' ''='' (OParam 1)] None)"
  by code_simp

lemma parse_get_company:
  "parse_sql get_company_sql = Inr (SqlSelect [(''handle'', ''handle''), (''name'', ''name''),
      (''description'', ''description''), (''num_employees'', ''numEmployees''),
      (''logo_url'', ''logoUrl'')] ''companies'' [Cond ''handle'' ''='' (OParam 1)] None)"
  by code_simp

lemma parse_remove:
  "parse_sql remove_sql = Inr (SqlDelete ''jobs'' [Cond ''id'' ''='' (OParam 1)] [(''id'', ''id'')])"
  by code_simp

lemma parse_findAll:
  \<open>parse_sql (findAll_query sf) = Inl ''syntax error at or near "FROM"''\<close>
  apply (cases "minSalary sf"; cases "title sf"; cases "hasEquity sf = Bool True")
  apply (simp_all add: findAll_query_def findAll_filters_def findAll_select_def show_nat.simps)
  apply code_simp+
  done

text \<open>
  Without the comma that ends its select list, the statement of \<open>findAll\<close> is one the
  store accepts: the comma alone is at fault.
\<close>

lemma parse_findAll_without_comma:
  \<open>parse_sql (''SELECT title, salary, equity, company_handle AS "companyHandle" FROM jobs''
      @ '' WHERE salary >= $1 AND equity > 0 AND title ILIKE $2'' @ '' ORDER BY title'') =
   Inr (SqlSelect [(''title'', ''title''), (''salary'', ''salary''), (''equity'', ''equity''),
           (''company_handle'', ''companyHandle'')] ''jobs''
         [Cond ''salary'' ''>='' (OParam 1), Cond ''equity'' ''>'' (ONum 0),
          Cond ''title'' ''ilike'' (OParam 2)] (Some ''title''))\<close>
  by code_simp


lemma where_conds_findAll:
  "where_conds (findAll_query sf) =
     (if minSalary sf = None then [] else [Cond ''salary'' ''>='' (OParam 1)])
     @ (if hasEquity sf = Bool True then [Cond ''equity'' ''>'' (ONum 0)] else [])
     @ (if title sf = None then []
        else [Cond ''title'' ''ilike'' (OParam (if minSalary sf = None then 1 else 2))])"
  apply (cases "minSalary sf"; cases "title sf"; cases "hasEquity sf = Bool True")
  apply (simp_all add: findAll_query_def findAll_filters_def findAll_select_def show_nat.simps)
  apply code_simp+
  done

lemma placeholders_findAll:
  "placeholders (findAll_query sf) =
     (if minSalary sf = None then [] else [1])
     @ (if title sf = None then [] else [if minSalary sf = None then 1 else 2])"
  apply (cases "minSalary sf"; cases "title sf"; cases "hasEquity sf = Bool True")
  apply (simp_all add: findAll_query_def findAll_filters_def findAll_select_def show_nat.simps)
  apply code_simp+
  done

section \<open>Round trips\<close>

lemma int4_job_id: "int4 (job_id j)"
  using sint_ge [of "job_id_word j"] sint_lt [of "job_id_word j"]
  by (simp add: int4_def job_id_def)

lemma job_id_backend: "job_id backend = 1"
  by (simp add: job_id_def backend_def)

lemma job_salary_backend: "job_salary backend = Some 120000"
  by (simp add: job_salary_def backend_def)

lemma co_num_employees_acme: "co_num_employees acme = Some 12"
  by (simp add: co_num_employees_def acme_def)

lemma not_int4_example: "\<not> int4 2147483648"
  by (simp add: int4_def)

lemma cond_error_job_id:
  "cond_error jobs_columns [Num i] (Cond ''id'' ''='' (OParam (Suc 0))) =
     (if int4 i then None else Some out_of_range)"
  by (simp add: cond_error_def jobs_columns_def check_operand_def check_value_def)

lemma cond_error_company_handle:
  "cond_error companies_columns [Str h] (Cond ''handle'' ''='' (OParam (Suc 0))) = None"
  by (simp add: cond_error_def companies_columns_def check_operand_def check_value_def)

lemma matches_job_id:
  "matches [Cond ''id'' ''='' (OParam (Suc 0))] [Num i] (row_of_job j) = (job_id j = i)"
  by (simp add: matches_def cond_holds_def operand_val_def compare_def num_of_def row_of_job_def)

lemma matches_company_handle:
  "matches [Cond ''handle'' ''='' (OParam (Suc 0))] [Str h] (row_of_company c) = (co_handle c = h)"
  by (simp add: matches_def cond_holds_def operand_val_def compare_def num_of_def row_of_company_def)

lemma project_job:
  "project [(''id'', ''id''), (''title'', ''title''), (''salary'', ''salary''),
      (''equity'', ''equity''), (''company_handle'', ''companyHandle'')] (row_of_job j) = job_view j"
  by (simp add: project_def row_of_job_def job_view_def)

lemma project_company:
  "project [(''handle'', ''handle''), (''name'', ''name''),
      (''description'', ''description''), (''num_employees'', ''numEmployees''),
      (''logo_url'', ''logoUrl'')] (row_of_company c) = company_view c"
  by (simp add: project_def row_of_company_def company_view_def)

lemma job_items_ok:
  "items_ok jobs_columns [(''id'', ''id''), (''title'', ''title''), (''salary'', ''salary''),
      (''equity'', ''equity''), (''company_handle'', ''companyHandle'')]"
  by (simp add: items_ok_def jobs_columns_def)

lemma id_items_ok: "items_ok jobs_columns [(''id'', ''id'')]"
  by (simp add: items_ok_def jobs_columns_def)

lemma company_items_ok:
  "items_ok companies_columns [(''handle'', ''handle''), (''name'', ''name''),
      (''description'', ''description''), (''num_employees'', ''numEmployees''),
      (''logo_url'', ''logoUrl'')]"
  by (simp add: items_ok_def companies_columns_def)

lemma query_get_job:
  "db_query d get_job_sql [Num i] =
     (if int4 i then Inr (map job_view (filter (\<lambda>j. job_id j = i) (jobs d))) else Inl out_of_range,
      d\<lparr>sent := sent d @ [(get_job_sql, [Num i])]\<rparr>)"
  by (simp add: db_query_def parse_get_job exec_select_def table_of_def job_items_ok order_ok_def
      cond_error_job_id sort_rows_def filter_map comp_def matches_job_id project_job)

lemma query_get_company:
  "db_query d get_company_sql [Str h] =
     (Inr (map company_view (filter (\<lambda>c. co_handle c = h) (companies d))),
      d\<lparr>sent := sent d @ [(get_company_sql, [Str h])]\<rparr>)"
  by (simp add: db_query_def parse_get_company exec_select_def table_of_def company_items_ok
      order_ok_def cond_error_company_handle sort_rows_def filter_map comp_def
      matches_company_handle project_company)

lemma query_remove:
  "db_query d remove_sql [Num i] =
     (if int4 i
      then (Inr (map (\<lambda>j. [(''id'', Num (job_id j))]) (filter (\<lambda>j. job_id j = i) (jobs d))),
            d\<lparr>sent := sent d @ [(remove_sql, [Num i])],
              jobs := filter (\<lambda>j. job_id j \<noteq> i) (jobs d)\<rparr>)
      else (Inl out_of_range, d\<lparr>sent := sent d @ [(remove_sql, [Num i])]\<rparr>))"
  by (simp add: db_query_def parse_remove exec_delete_def id_items_ok
      cond_error_job_id matches_job_id project_def)
     (simp add: row_of_job_def)

lemma sent_exec: "sent (snd (exec st ps d)) = sent d"
  by (cases st)
     (auto simp: exec_select_def exec_insert_def exec_update_def exec_delete_def Let_def
           split: option.splits)

lemma sent_db_query: "sent (snd (db_query d text ps)) = sent d @ [(text, ps)]"
  by (simp add: db_query_def Let_def sent_exec split: sum.splits)

lemma snd_Jobs_findAll:
  "\<not> negative_minSalary sf \<Longrightarrow>
   snd (Jobs_findAll d sf) = snd (db_query d (findAll_query sf) (fst (findAll_filters sf)))"
  by (auto simp: Jobs_findAll_def split: prod.splits sum.splits)

lemma filter_find_Some: "find P xs = Some x \<Longrightarrow> \<exists>ys. filter P xs = x # ys"
  by (induction xs) (auto split: if_splits)

lemma filter_find_None: "find P xs = None \<Longrightarrow> filter P xs = []"
  by (induction xs) (auto split: if_splits)

lemma find_job_id: "find (\<lambda>j. job_id j = jid) js = Some j \<Longrightarrow> job_id j = jid"
  by (induction js) (auto split: if_splits)

lemma get_found:
  assumes "find (\<lambda>j. job_id j = jid) (jobs d) = Some j"
  shows "fst (Jobs_get d jid) =
     Inr [(''id'', Num (job_id j)), (''title'', Str (job_title j)),
          (''salary'', num_val (job_salary j)), (''equity'', dec_val (job_equity j)),
          (''company'', first_row (map company_view
               (filter (\<lambda>c. co_handle c = job_company_handle j) (companies d))))]"
proof -
  obtain js where js: "filter (\<lambda>j. job_id j = jid) (jobs d) = j # js"
    using filter_find_Some [OF assms] by auto
  have "int4 jid"
    using find_job_id [OF assms] int4_job_id [of j] by simp
  then show ?thesis
    by (simp add: Jobs_get_def query_get_job js job_view_def obj_get_def query_get_company)
qed

lemma get_not_found:
  assumes "find (\<lambda>j. job_id j = jid) (jobs d) = None" and "int4 jid"
  shows "fst (Jobs_get d jid) = Inl (NotFoundError (''No job: '' @ show_int jid))"
  using filter_find_None [OF assms(1)] assms(2) by (simp add: Jobs_get_def query_get_job)

lemma get_out_of_range:
  "\<not> int4 jid \<Longrightarrow> fst (Jobs_get d jid) = Inl out_of_range"
  by (simp add: Jobs_get_def query_get_job)

section \<open>\<open>findAll\<close>: the statement never runs\<close>

text \<open>
  Claim C1: for every filter input, the empty filter included, \<open>findAll\<close> returns the
  sequence of all matching Jobs sorted ascending by title.

  The code does not: the select list of its statement ends in a comma
  (\<open>company_handle AS "companyHandle",\<close> and then \<open>FROM jobs\<close>), so the store
  refuses every statement \<open>findAll\<close> sends and \<open>findAll\<close> fails with the store's
  syntax error. On every store and every filter the result is a failure: the
  \<open>Invalid Constraints\<close> error for a negative \<open>minSalary\<close>, the syntax error otherwise.
\<close>

theorem findAll_fails_at_the_store:
  \<open>fst (Jobs_findAll d sf) =
     Inl (if negative_minSalary sf
          then ExpressError ''Invalid Constraints'' 400
          else StoreError ''syntax error at or near "FROM"'')\<close>
  by (simp add: Jobs_findAll_def db_query_def parse_findAll Let_def)

section \<open>\<open>get\<close>\<close>

text \<open>
  Claim C2: for every id, \<open>get(id)\<close> fails with \<open>NotFound\<close> when no Job row has that
  id; when a Job row exists, \<open>get\<close> returns the Job with its company reference
  replaced by the embedded Company object, and the raw \<open>companyHandle\<close> field is not
  present in the returned value.

  As stated the claim fails: \<open>2147483648\<close> is the id of no row, since it is beyond the
  32 bits of the \<open>id\<close> column, and the store refuses the lookup with its out-of-range
  error, which \<open>get\<close> passes on as it does every failure of the store. \<open>get\<close> does not
  fail with \<open>NotFound\<close> there.
\<close>

theorem get_beyond_integer_range:
  "map job_id (jobs db0) = [1]
   \<and> fst (Jobs_get db0 2147483648) = Inl (StoreError ''value is out of range for type integer'')
   \<and> fst (Jobs_get db0 2147483648) \<noteq> Inl (NotFoundError ''No job: 2147483648'')"
  by (simp add: get_out_of_range not_int4_example out_of_range_def NotFoundError_def
      db0_def job_id_backend)

text \<open>
  Claim C2, amended: for every id within the range of the store's \<open>integer\<close> type
  (\<open>-2147483648 .. 2147483647\<close>), \<open>get(id)\<close> fails with \<open>NotFound\<close> when no Job row has
  that id; when a Job row exists, \<open>get\<close> returns the Job with its company reference
  replaced by the embedded Company object, and the raw \<open>companyHandle\<close> field is not
  present in the returned value; for an id outside that range \<open>get\<close> fails with the
  store's out-of-range error.

  \<open>find\<close> gives the row with that id (the first one; the primary key allows one at
  most) and the row of \<open>companies\<close> that the Job names, which the \<open>references\<close>
  constraint of the schema provides.
\<close>

theorem get_returns_job_with_company:
  "(int4 jid \<and> find (\<lambda>j. job_id j = jid) (jobs d) = None \<longrightarrow>
      fst (Jobs_get d jid) = Inl (NotFoundError (''No job: '' @ show_int jid)))
   \<and> (find (\<lambda>j. job_id j = jid) (jobs d) = Some j
      \<and> find (\<lambda>c. co_handle c = job_company_handle j) (companies d) = Some c \<longrightarrow>
      fst (Jobs_get d jid) =
        Inr [(''id'', Num (job_id j)), (''title'', Str (job_title j)),
             (''salary'', num_val (job_salary j)), (''equity'', dec_val (job_equity j)),
             (''company'', Obj (company_view c))]
      \<and> map_of (projr (fst (Jobs_get d jid))) ''companyHandle'' = None)
   \<and> (\<not> int4 jid \<longrightarrow> fst (Jobs_get d jid) = Inl out_of_range)"
proof (intro conjI impI)
  assume "int4 jid \<and> find (\<lambda>j. job_id j = jid) (jobs d) = None"
  then show "fst (Jobs_get d jid) = Inl (NotFoundError (''No job: '' @ show_int jid))"
    by (simp add: get_not_found)
next
  assume a: "find (\<lambda>j. job_id j = jid) (jobs d) = Some j
      \<and> find (\<lambda>c. co_handle c = job_company_handle j) (companies d) = Some c"
  then obtain cs where cs: "filter (\<lambda>c. co_handle c = job_company_handle j) (companies d) = c # cs"
    using filter_find_Some [of "\<lambda>c. co_handle c = job_company_handle j" "companies d" c] by auto
  from a have r: "fst (Jobs_get d jid) =
        Inr [(''id'', Num (job_id j)), (''title'', Str (job_title j)),
             (''salary'', num_val (job_salary j)), (''equity'', dec_val (job_equity j)),
             (''company'', Obj (company_view c))]"
    by (simp add: get_found cs first_row_def)
  then show "fst (Jobs_get d jid) =
        Inr [(''id'', Num (job_id j)), (''title'', Str (job_title j)),
             (''salary'', num_val (job_salary j)), (''equity'', dec_val (job_equity j)),
             (''company'', Obj (company_view c))]" .
  from r show "map_of (projr (fst (Jobs_get d jid))) ''companyHandle'' = None"
    by simp
next
  assume "\<not> int4 jid"
  then show "fst (Jobs_get d jid) = Inl out_of_range"
    by (rule get_out_of_range)
qed

theorem get_returns_job_with_company_witness:
  "int4 7
   \<and> find (\<lambda>j. job_id j = 7) (jobs db0) = None
   \<and> fst (Jobs_get db0 7) = Inl (NotFoundError ''No job: 7'')
   \<and> find (\<lambda>j. job_id j = 1) (jobs db0) = Some backend
   \<and> find (\<lambda>c. co_handle c = job_company_handle backend) (companies db0) = Some acme
   \<and> fst (Jobs_get db0 1) =
        Inr [(''id'', Num 1), (''title'', Str ''Backend Engineer''), (''salary'', Num 120000),
             (''equity'', Dec (1 / 100)),
             (''company'', Obj [(''handle'', Str ''acme''), (''name'', Str ''Acme Corp''),
                (''description'', Null), (''numEmployees'', Num 12), (''logoUrl'', Null)])]
   \<and> \<not> int4 2147483648
   \<and> fst (Jobs_get db0 2147483648) = Inl out_of_range"
  using get_returns_job_with_company [of 7 db0] get_returns_job_with_company [of 1 db0 backend acme]
    get_returns_job_with_company [of 2147483648 db0]
  by (simp add: db0_def job_id_backend job_salary_backend co_num_employees_acme int4_def
      show_int_def show_nat.simps company_view_def num_val_def dec_val_def str_val_def)
     (simp add: backend_def acme_def)

text \<open>
  Claim C10: for every id whose Job row exists but whose referenced \<open>companies\<close> row
  is absent at the time of the second lookup, \<open>get(id)\<close> still succeeds: it returns
  the Job with \<open>companyHandle\<close> removed and the \<open>company\<close> field set to \<open>undefined\<close>.
\<close>

theorem get_with_missing_company:
  "find (\<lambda>j. job_id j = jid) (jobs d) = Some j \<Longrightarrow>
   find (\<lambda>c. co_handle c = job_company_handle j) (companies d) = None \<Longrightarrow>
   fst (Jobs_get d jid) =
     Inr [(''id'', Num (job_id j)), (''title'', Str (job_title j)),
          (''salary'', num_val (job_salary j)), (''equity'', dec_val (job_equity j)),
          (''company'', Undefined)]"
  by (simp add: get_found filter_find_None first_row_def)

theorem get_with_missing_company_witness:
  "find (\<lambda>j. job_id j = 1) (jobs db_dangling) = Some backend
   \<and> find (\<lambda>c. co_handle c = job_company_handle backend) (companies db_dangling) = None
   \<and> fst (Jobs_get db_dangling 1) =
        Inr [(''id'', Num 1), (''title'', Str ''Backend Engineer''), (''salary'', Num 120000),
             (''equity'', Dec (1 / 100)), (''company'', Undefined)]"
  using get_with_missing_company [of 1 db_dangling backend]
  by (simp add: db_dangling_def job_id_backend job_salary_backend num_val_def dec_val_def)
     (simp add: backend_def)

section \<open>Failures raised before any round trip\<close>

text \<open>
  Claim C5: for every filter input in which \<open>minSalary\<close> is present and negative,
  \<open>findAll\<close> fails with \<open>BadRequest\<close> before any query is issued to the store.

  The failure is the \<open>ExpressError\<close> with status 400, and the store that comes back is
  the store that went in, the list of statements sent included: nothing was sent.
\<close>

theorem findAll_negative_minSalary:
  "minSalary sf = Some m \<Longrightarrow> m < 0 \<Longrightarrow>
   Jobs_findAll d sf = (Inl (BadRequestError ''Invalid Constraints''), d)"
  by (simp add: Jobs_findAll_def BadRequestError_def negative_minSalary_def)

theorem findAll_negative_minSalary_witness:
  "minSalary \<lparr>title = None, minSalary = Some (- 1), hasEquity = Undefined\<rparr> = Some (- 1)
   \<and> (- 1 :: int) < 0
   \<and> Jobs_findAll db0 \<lparr>title = None, minSalary = Some (- 1), hasEquity = Undefined\<rparr> =
       (Inl (BadRequestError ''Invalid Constraints''), db0)
   \<and> sent (snd (Jobs_findAll db0 \<lparr>title = None, minSalary = Some (- 1), hasEquity = Undefined\<rparr>)) = []"
  using findAll_negative_minSalary [of "\<lparr>title = None, minSalary = Some (- 1), hasEquity = Undefined\<rparr>" "- 1" db0]
  by (simp add: db0_def)

text \<open>
  Claim C8: for every id, \<open>update(id, {})\<close> with an empty patch fails with
  \<open>BadRequest\<close> ("no data"), raised before any statement is sent to the store.
\<close>

theorem update_empty_patch:
  "Jobs_update d jid [] = (Inl (BadRequestError ''no data''), d)"
  by (simp add: Jobs_update_def sqlForPartialUpdate_def)

section \<open>\<open>update\<close>: the key of the company reference\<close>

text \<open>
  Claim C3: for every id and non-empty patch, \<open>update(id, patch)\<close> fails with \<open>NotFound\<close>
  exactly when no row matches id; otherwise it returns the updated Job as stored, an
  object with keys \<open>id\<close>, \<open>title\<close>, \<open>salary\<close>, \<open>equity\<close>, \<open>companyHandle\<close> holding the
  post-update values, unenriched.

  The code does not return that object: the returning list of its statement ends in
  \<open>company_handle AS companyHandle\<close>, the alias unquoted, where \<open>create\<close> and \<open>get\<close>
  write \<open>AS "companyHandle"\<close>. The store folds the unquoted alias to lower case, and
  the Job that comes back has the key \<open>companyhandle\<close> and no key \<open>companyHandle\<close>.
  (An id that no row has does give \<open>NotFound\<close>.)
\<close>

theorem update_returns_lower_case_key:
  "fst (Jobs_update db0 1 [(''title'', Str ''Staff Engineer'')]) =
     Inr [(''id'', Num 1), (''title'', Str ''Staff Engineer''), (''salary'', Num 120000),
          (''equity'', Dec (1 / 100)), (''companyhandle'', Str ''acme'')]
   \<and> fst (Jobs_update db0 7 [(''title'', Str ''Staff Engineer'')]) =
     Inl (NotFoundError ''No company: 7'')"
  by code_simp

section \<open>\<open>remove\<close>\<close>

lemma remove_result:
  "Jobs_remove d jid =
     (if int4 jid
      then (case filter (\<lambda>j. job_id j = jid) (jobs d) of
              [] \<Rightarrow> Inl (NotFoundError (''No job: '' @ show_int jid))
            | _ # _ \<Rightarrow> Inr (),
            d\<lparr>sent := sent d @ [(remove_sql, [Num jid])],
              jobs := filter (\<lambda>j. job_id j \<noteq> jid) (jobs d)\<rparr>)
      else (Inl out_of_range, d\<lparr>sent := sent d @ [(remove_sql, [Num jid])]\<rparr>))"
  by (simp add: Jobs_remove_def query_remove split: list.splits)

lemma filter_complement_id:
  "(filter (\<lambda>x. \<not> P x) xs = xs) = (filter P xs = [])"
  by (simp add: filter_id_conv filter_empty_conv)

text \<open>
  Claim C4: for every id, \<open>remove(id)\<close> fails with \<open>NotFound\<close> exactly when no row was
  deleted, and produces no value on success; after a successful \<open>remove(id)\<close>, a
  subsequent \<open>get(id)\<close> fails with \<open>NotFound\<close>.

  As stated the claim fails: for the id \<open>2147483648\<close>, beyond the 32 bits of the \<open>id\<close>
  column, no row is deleted, and \<open>remove\<close> fails with the store's out-of-range error,
  not with \<open>NotFound\<close>.
\<close>

theorem remove_beyond_integer_range:
  "jobs (snd (Jobs_remove db0 2147483648)) = jobs db0
   \<and> fst (Jobs_remove db0 2147483648) = Inl (StoreError ''value is out of range for type integer'')
   \<and> fst (Jobs_remove db0 2147483648) \<noteq> Inl (NotFoundError ''No job: 2147483648'')"
  by (simp add: remove_result not_int4_example out_of_range_def NotFoundError_def)

text \<open>
  Claim C4, amended: for every id within the range of the store's \<open>integer\<close> type
  (\<open>-2147483648 .. 2147483647\<close>), \<open>remove(id)\<close> fails with \<open>NotFound\<close> exactly when no
  row was deleted, which is exactly when no row has that id; for an id outside that
  range it fails with the store's out-of-range error and deletes no row; it produces
  no value on success; and after a successful \<open>remove(id)\<close>, a subsequent \<open>get(id)\<close>
  fails with \<open>NotFound\<close>.

  No row was deleted: the table after the call is the table before it.
\<close>

theorem remove_then_get:
  "(int4 jid \<longrightarrow>
      (fst (Jobs_remove d jid) = Inl (NotFoundError (''No job: '' @ show_int jid))
         \<longleftrightarrow> jobs (snd (Jobs_remove d jid)) = jobs d)
      \<and> (fst (Jobs_remove d jid) = Inl (NotFoundError (''No job: '' @ show_int jid))
         \<longleftrightarrow> find (\<lambda>j. job_id j = jid) (jobs d) = None))
   \<and> (\<not> int4 jid \<longrightarrow>
        fst (Jobs_remove d jid) = Inl out_of_range \<and> jobs (snd (Jobs_remove d jid)) = jobs d)
   \<and> (find (\<lambda>j. job_id j = jid) (jobs d) \<noteq> None \<longrightarrow> fst (Jobs_remove d jid) = Inr ())
   \<and> (fst (Jobs_remove d jid) = Inr () \<longrightarrow>
        fst (Jobs_get (snd (Jobs_remove d jid)) jid) = Inl (NotFoundError (''No job: '' @ show_int jid)))"
proof -
  let ?hits = "filter (\<lambda>j. job_id j = jid) (jobs d)"
  have none: "(find (\<lambda>j. job_id j = jid) (jobs d) = None) = (?hits = [])"
    by (auto simp: find_None_iff filter_empty_conv)
  have kept: "(filter (\<lambda>j. job_id j \<noteq> jid) (jobs d) = jobs d) = (?hits = [])"
    using filter_complement_id [of "\<lambda>j. job_id j = jid" "jobs d"] by simp
  have gone: "find (\<lambda>j. job_id j = jid) (filter (\<lambda>j. job_id j \<noteq> jid) (jobs d)) = None"
    by (simp add: find_None_iff)
  show ?thesis
  proof (cases "int4 jid")
    case False
    have "?hits = []"
    proof (rule ccontr)
      assume "?hits \<noteq> []"
      then obtain j where "j \<in> set (jobs d)" and "job_id j = jid"
        by (auto simp: filter_empty_conv)
      then show False
        using False int4_job_id [of j] by simp
    qed
    with False show ?thesis
      by (simp add: remove_result none out_of_range_def)
  next
    case True
    show ?thesis
    proof (cases ?hits)
      case Nil
      then show ?thesis
        using True gone by (simp add: remove_result none kept)
    next
      case (Cons j js)
      then show ?thesis
        using True gone by (simp add: remove_result none kept get_not_found)
    qed
  qed
qed

theorem remove_then_get_witness:
  "int4 7
   \<and> fst (Jobs_remove db0 7) = Inl (NotFoundError ''No job: 7'')
   \<and> jobs (snd (Jobs_remove db0 7)) = jobs db0
   \<and> \<not> int4 2147483648
   \<and> fst (Jobs_remove db0 2147483648) = Inl out_of_range
   \<and> find (\<lambda>j. job_id j = 1) (jobs db0) \<noteq> None
   \<and> fst (Jobs_remove db0 1) = Inr ()
   \<and> jobs (snd (Jobs_remove db0 1)) = []
   \<and> fst (Jobs_get (snd (Jobs_remove db0 1)) 1) = Inl (NotFoundError ''No job: 1'')"
  using remove_then_get [of 7 db0] remove_then_get [of 1 db0] remove_then_get [of 2147483648 db0]
  by (simp add: db0_def job_id_backend int4_def show_int_def show_nat.simps remove_result)

section \<open>The conditions and parameters of \<open>findAll\<close>\<close>

text \<open>
  Claim C6: for every filter input, an equity condition (equity strictly greater than
  zero) is added to the WHERE expression if and only if \<open>hasEquity === true\<close>; when
  \<open>hasEquity\<close> is absent or false, no equity condition is added.

  In the text of the statement \<open>findAll\<close> builds, the conditions of the \<open>WHERE\<close> clause
  that are about the column \<open>equity\<close> are the one condition \<open>equity > 0\<close> when
  \<open>hasEquity\<close> is the boolean \<open>true\<close>, and none for any other value; \<open>whereExp\<close>, the
  second component of \<open>findAll_filters\<close>, holds \<open>equity > 0\<close> in the same case; for any
  other value the conditions, the parameters and the statement text are those of the
  filter without \<open>hasEquity\<close>. Every call that passes the check of \<open>minSalary\<close> sends
  that text.
\<close>

theorem equity_condition_iff_hasEquity_true:
  "filter (\<lambda>c. cond_column c = ''equity'') (where_conds (findAll_query sf)) =
     (if hasEquity sf = Bool True then [Cond ''equity'' ''>'' (ONum 0)] else [])
   \<and> (''equity > 0'' \<in> set (snd (findAll_filters sf)) \<longleftrightarrow> hasEquity sf = Bool True)
   \<and> (hasEquity sf \<noteq> Bool True \<longrightarrow>
        findAll_filters sf = findAll_filters (sf\<lparr>hasEquity := Undefined\<rparr>)
        \<and> findAll_query sf = findAll_query (sf\<lparr>hasEquity := Undefined\<rparr>))
   \<and> (\<not> negative_minSalary sf \<longrightarrow>
        sent (snd (Jobs_findAll d sf)) = sent d @ [(findAll_query sf, fst (findAll_filters sf))])"
proof (intro conjI impI)
  show "filter (\<lambda>c. cond_column c = ''equity'') (where_conds (findAll_query sf)) =
     (if hasEquity sf = Bool True then [Cond ''equity'' ''>'' (ONum 0)] else [])"
    by (simp add: where_conds_findAll)
next
  show "''equity > 0'' \<in> set (snd (findAll_filters sf)) \<longleftrightarrow> hasEquity sf = Bool True"
    by (cases "minSalary sf"; cases "title sf") (simp_all add: findAll_filters_def)
next
  assume "hasEquity sf \<noteq> Bool True"
  then show "findAll_filters sf = findAll_filters (sf\<lparr>hasEquity := Undefined\<rparr>)"
    by (simp add: findAll_filters_def)
  then show "findAll_query sf = findAll_query (sf\<lparr>hasEquity := Undefined\<rparr>)"
    by (simp add: findAll_query_def)
next
  assume "\<not> negative_minSalary sf"
  then show "sent (snd (Jobs_findAll d sf)) = sent d @ [(findAll_query sf, fst (findAll_filters sf))]"
    by (simp add: snd_Jobs_findAll sent_db_query)
qed

theorem equity_condition_iff_hasEquity_true_witness:
  "hasEquity \<lparr>title = Some ''eng'', minSalary = Some 10, hasEquity = Bool False\<rparr> \<noteq> Bool True
   \<and> \<not> negative_minSalary \<lparr>title = Some ''eng'', minSalary = Some 10, hasEquity = Bool False\<rparr>
   \<and> where_conds (findAll_query \<lparr>title = Some ''eng'', minSalary = Some 10, hasEquity = Bool False\<rparr>) =
       [Cond ''salary'' ''>='' (OParam 1), Cond ''title'' ''ilike'' (OParam 2)]
   \<and> where_conds (findAll_query \<lparr>title = Some ''eng'', minSalary = Some 10, hasEquity = Bool True\<rparr>) =
       [Cond ''salary'' ''>='' (OParam 1), Cond ''equity'' ''>'' (ONum 0),
        Cond ''title'' ''ilike'' (OParam 2)]
   \<and> findAll_filters \<lparr>title = Some ''eng'', minSalary = Some 10, hasEquity = Bool False\<rparr> =
       ([Num 10, Str ''%eng%''], [''salary >= $1'', ''title ILIKE $2''])
   \<and> findAll_filters \<lparr>title = Some ''eng'', minSalary = Some 10, hasEquity = Bool True\<rparr> =
       ([Num 10, Str ''%eng%''], [''salary >= $1'', ''equity > 0'', ''title ILIKE $2''])
   \<and> map snd (sent (snd (Jobs_findAll db0
         \<lparr>title = Some ''eng'', minSalary = Some 10, hasEquity = Bool False\<rparr>))) =
       [[Num 10, Str ''%eng%'']]"
  using equity_condition_iff_hasEquity_true
    [of "\<lparr>title = Some ''eng'', minSalary = Some 10, hasEquity = Bool False\<rparr>" db0]
  by (simp add: findAll_filters_def show_nat.simps negative_minSalary_def db0_def
      where_conds_findAll)

text \<open>
  Claim C7: for every filter input, each present filter condition contributes exactly
  one query parameter; the parameters are numbered sequentially in the fixed order the
  conditions are evaluated, and the placeholder numbers appearing in the WHERE
  expression are consistent with the positions of the values in the parameter list.

  As stated the claim fails: the equity condition is the constant text \<open>equity > 0\<close>
  and contributes no parameter, so a filter with \<open>hasEquity\<close> alone has one condition
  and no parameter.
\<close>

theorem equity_condition_has_no_parameter:
  "snd (findAll_filters \<lparr>title = None, minSalary = None, hasEquity = Bool True\<rparr>) = [''equity > 0'']
   \<and> fst (findAll_filters \<lparr>title = None, minSalary = None, hasEquity = Bool True\<rparr>) = []"
  by (simp add: findAll_filters_def)

lemma placeholders_salary: "placeholders ''salary >= $1'' = [1]"
  by code_simp

lemma placeholders_equity: "placeholders ''equity > 0'' = []"
  by code_simp

lemma placeholders_title1: "placeholders ''title ILIKE $1'' = [1]"
  by code_simp

lemma placeholders_title2: "placeholders ''title ILIKE $2'' = [2]"
  by code_simp

text \<open>
  Claim C7, amended: the \<open>minSalary\<close> condition and the \<open>title\<close> condition contribute
  exactly one parameter each and the equity condition none; the placeholders that
  occur in the text of the statement, read in order, are \<open>$1, ..., $n\<close> for the \<open>n\<close>
  values of the parameter list, and so are those of the conditions in \<open>whereExp\<close>; in
  the \<open>WHERE\<close> clause of the statement the \<open>minSalary\<close> condition is \<open>salary >= $1\<close> and
  \<open>minSalary\<close> is the first value of the list, and the \<open>title\<close> condition is
  \<open>title ILIKE $n\<close> and the pattern \<open>%title%\<close> is the \<open>n\<close>-th and last value. Every call
  that passes the check of \<open>minSalary\<close> sends that text with this parameter list.
\<close>

theorem findAll_placeholders_match_values:
  "placeholders (findAll_query sf) = [1..<Suc (length (fst (findAll_filters sf)))]
   \<and> concat (map placeholders (snd (findAll_filters sf))) = [1..<Suc (length (fst (findAll_filters sf)))]
   \<and> length (fst (findAll_filters sf)) =
       (if minSalary sf = None then 0 else 1) + (if title sf = None then 0 else 1)
   \<and> (minSalary sf = Some m \<longrightarrow>
        Cond ''salary'' ''>='' (OParam 1) \<in> set (where_conds (findAll_query sf))
        \<and> ''salary >= $1'' \<in> set (snd (findAll_filters sf))
        \<and> fst (findAll_filters sf) ! 0 = Num m)
   \<and> (title sf = Some t \<longrightarrow>
        Cond ''title'' ''ilike'' (OParam (length (fst (findAll_filters sf))))
          \<in> set (where_conds (findAll_query sf))
        \<and> (''title ILIKE $'' @ show_nat (length (fst (findAll_filters sf)))) \<in> set (snd (findAll_filters sf))
        \<and> fst (findAll_filters sf) ! (length (fst (findAll_filters sf)) - 1) = Str (''%'' @ t @ ''%''))
   \<and> (\<not> negative_minSalary sf \<longrightarrow>
        sent (snd (Jobs_findAll d sf)) = sent d @ [(findAll_query sf, fst (findAll_filters sf))])"
proof -
  have "\<not> negative_minSalary sf \<longrightarrow>
        sent (snd (Jobs_findAll d sf)) = sent d @ [(findAll_query sf, fst (findAll_filters sf))]"
    by (simp add: snd_Jobs_findAll sent_db_query)
  then show ?thesis
    by (cases "minSalary sf"; cases "title sf"; cases "hasEquity sf = Bool True")
       (simp_all add: where_conds_findAll placeholders_findAll findAll_filters_def show_nat.simps
          placeholders_salary placeholders_equity placeholders_title1 placeholders_title2)
qed

theorem findAll_placeholders_match_values_witness:
  "minSalary \<lparr>title = Some ''eng'', minSalary = Some 10, hasEquity = Bool True\<rparr> = Some 10
   \<and> title \<lparr>title = Some ''eng'', minSalary = Some 10, hasEquity = Bool True\<rparr> = Some ''eng''
   \<and> findAll_filters \<lparr>title = Some ''eng'', minSalary = Some 10, hasEquity = Bool True\<rparr> =
       ([Num 10, Str ''%eng%''], [''salary >= $1'', ''equity > 0'', ''title ILIKE $2''])
   \<and> \<not> negative_minSalary \<lparr>title = Some ''eng'', minSalary = Some 10, hasEquity = Bool True\<rparr>
   \<and> placeholders (findAll_query \<lparr>title = Some ''eng'', minSalary = Some 10, hasEquity = Bool True\<rparr>)
       = [1, 2]
   \<and> where_conds (findAll_query \<lparr>title = Some ''eng'', minSalary = Some 10, hasEquity = Bool True\<rparr>) =
       [Cond ''salary'' ''>='' (OParam 1), Cond ''equity'' ''>'' (ONum 0),
        Cond ''title'' ''ilike'' (OParam 2)]
   \<and> map snd (sent (snd (Jobs_findAll db0
         \<lparr>title = Some ''eng'', minSalary = Some 10, hasEquity = Bool True\<rparr>))) =
       [[Num 10, Str ''%eng%'']]"
  using findAll_placeholders_match_values
    [of "\<lparr>title = Some ''eng'', minSalary = Some 10, hasEquity = Bool True\<rparr>" 10 "''eng''" db0]
  by (simp add: findAll_filters_def show_nat.simps placeholders_findAll where_conds_findAll
      negative_minSalary_def db0_def)

section \<open>\<open>create\<close> and \<open>update\<close>: no range check\<close>

lemma snd_Jobs_create:
  "snd (Jobs_create d data) =
     snd (db_query d create_sql [obj_get data ''title'', obj_get data ''salary'',
                                 obj_get data ''equity'', obj_get data ''companyHandle''])"
  by (auto simp: Jobs_create_def split: prod.splits sum.splits)

lemma snd_Jobs_update:
  "sqlForPartialUpdate patch Map.empty = Inr (setCols, vals) \<Longrightarrow>
   snd (Jobs_update d jid patch) =
     snd (db_query d (update_sql setCols (''$'' @ show_nat (length vals + 1))) (vals @ [Num jid]))"
  by (auto simp: Jobs_update_def Let_def split: prod.splits sum.splits list.splits)

text \<open>The set clause of \<open>update\<close>: one assignment for each key of the patch, in order.\<close>

lemma sqlForPartialUpdate_result:
  "patch \<noteq> [] \<Longrightarrow>
   sqlForPartialUpdate patch Map.empty =
     Inr (join '', '' (map (\<lambda>(idx, colName). colName @ '' = $'' @ show_nat (idx + 1))
                         (enumerate 0 (map fst patch))),
          map snd patch)"
  by (simp add: sqlForPartialUpdate_def Let_def)

text \<open>
  Claim C9: for every create or update input, a non-null salary that is negative, or a
  non-null equity outside [0, 1], is rejected by this core before the data reaches
  storage.

  As stated the claim fails: \<open>create\<close> sends its statement to the store with a salary
  of \<open>-1\<close> and an equity of \<open>2\<close> among the parameters.
\<close>

theorem create_sends_negative_salary:
  "sent (snd (Jobs_create db0 [(''title'', Str ''Intern''), (''salary'', Num (- 1)),
            (''equity'', Dec 2), (''companyHandle'', Str ''acme'')])) =
     [(create_sql, [Str ''Intern'', Num (- 1), Dec 2, Str ''acme''])]"
  by (simp add: snd_Jobs_create sent_db_query obj_get_def db0_def)

text \<open>
  Claim C9, amended: \<open>create\<close> and \<open>update\<close> apply no check to \<open>salary\<close> or \<open>equity\<close>.
  \<open>create\<close> sends exactly one statement, its \<open>INSERT\<close>, whose parameters are the
  \<open>title\<close>, \<open>salary\<close>, \<open>equity\<close> and \<open>companyHandle\<close> of its input, unchanged; \<open>update\<close>
  with a non-empty patch sends exactly one statement, the \<open>UPDATE\<close> whose set clause
  has one assignment for each key of the patch, and whose parameters are the values of
  the patch, unchanged, followed by the id. A negative salary or an equity outside
  [0, 1] is therefore not rejected by this core: it reaches the store.
\<close>

theorem create_and_update_pass_values_through:
  "sent (snd (Jobs_create d data)) =
     sent d @ [(create_sql, [obj_get data ''title'', obj_get data ''salary'',
                            obj_get data ''equity'', obj_get data ''companyHandle''])]
   \<and> (patch \<noteq> [] \<longrightarrow>
        sent (snd (Jobs_update d jid patch)) =
          sent d @
          [(update_sql
              (join '', '' (map (\<lambda>(idx, colName). colName @ '' = $'' @ show_nat (idx + 1))
                                (enumerate 0 (map fst patch))))
              (''$'' @ show_nat (length patch + 1)),
            map snd patch @ [Num jid])])"
proof (intro conjI impI)
  show "sent (snd (Jobs_create d data)) =
     sent d @ [(create_sql, [obj_get data ''title'', obj_get data ''salary'',
                            obj_get data ''equity'', obj_get data ''companyHandle''])]"
    by (simp add: snd_Jobs_create sent_db_query)
next
  assume "patch \<noteq> []"
  then have s: "sqlForPartialUpdate patch Map.empty =
     Inr (join '', '' (map (\<lambda>(idx, colName). colName @ '' = $'' @ show_nat (idx + 1))
                         (enumerate 0 (map fst patch))),
          map snd patch)"
    by (rule sqlForPartialUpdate_result)
  show "sent (snd (Jobs_update d jid patch)) =
          sent d @
          [(update_sql
              (join '', '' (map (\<lambda>(idx, colName). colName @ '' = $'' @ show_nat (idx + 1))
                                (enumerate 0 (map fst patch))))
              (''$'' @ show_nat (length patch + 1)),
            map snd patch @ [Num jid])]"
    by (simp add: snd_Jobs_update [OF s] sent_db_query)
qed

theorem create_and_update_pass_values_through_witness:
  "[(''salary'', Num (- 5)), (''equity'', Dec 2)] \<noteq> ([] :: obj)
   \<and> sent (snd (Jobs_create db0 [(''title'', Str ''Intern''), (''salary'', Num (- 1)),
            (''equity'', Dec 2), (''companyHandle'', Str ''acme'')])) =
       [(create_sql, [Str ''Intern'', Num (- 1), Dec 2, Str ''acme''])]
   \<and> sent (snd (Jobs_update db0 1 [(''salary'', Num (- 5)), (''equity'', Dec 2)])) =
       [(update_sql ''salary = $1, equity = $2'' ''$3'', [Num (- 5), Dec 2, Num 1])]"
  using create_and_update_pass_values_through
    [of db0 "[(''title'', Str ''Intern''), (''salary'', Num (- 1)),
            (''equity'', Dec 2), (''companyHandle'', Str ''acme'')]"
        "[(''salary'', Num (- 5)), (''equity'', Dec 2)]" 1]
  by (simp add: obj_get_def db0_def show_nat.simps)

end
